theory Spec2Isabelle
  imports Main "HOL-Library.Sublist"
begin

section \<open>Text values\<close>

text \<open>
  A Python text value is a sequence of Unicode code points; a code point is a natural
  number. \<open>ustr\<close> reads an ASCII literal as such a sequence.
\<close>

type_synonym ustring = "nat list"

definition ustr :: "string \<Rightarrow> ustring" where
  "ustr s = map of_char s"

definition is_ascii_upper :: "nat \<Rightarrow> bool" where
  "is_ascii_upper c = (65 \<le> c \<and> c \<le> 90)"

definition is_ascii_lower :: "nat \<Rightarrow> bool" where
  "is_ascii_lower c = (97 \<le> c \<and> c \<le> 122)"

definition is_ascii_digit :: "nat \<Rightarrow> bool" where
  "is_ascii_digit c = (48 \<le> c \<and> c \<le> 57)"

definition is_ascii_alnum :: "nat \<Rightarrow> bool" where
  "is_ascii_alnum c = (is_ascii_upper c \<or> is_ascii_lower c \<or> is_ascii_digit c)"

definition ascii_tolower :: "nat \<Rightarrow> nat" where
  "ascii_tolower c = (if is_ascii_upper c then c + 32 else c)"

text \<open>
  The code leans on data that lives outside the repository: the transliteration tables
  of the \<open>unidecode\<close> package, and the character database of the Python runtime
  (which code points above ASCII are alphanumeric for \<open>\w\<close>, and how text above ASCII
  is lowercased). They are parameters of the model. What the functions do on code points
  below \<open>0x80\<close> is written out.
\<close>

record unicode_env =
  unidecode_table :: "nat \<Rightarrow> ustring"
  unicode_isalnum :: "nat \<Rightarrow> bool"
  unicode_lower :: "ustring \<Rightarrow> ustring"

text \<open>The tables of \<open>unidecode\<close> hold ASCII text only.\<close>

definition ascii_table :: "unicode_env \<Rightarrow> bool" where
  "ascii_table E = (\<forall>c. list_all (\<lambda>d. d < 128) (unidecode_table E c))"


section \<open>Normalizer: \<open>to_ascii\<close> and \<open>to_search\<close>\<close>

text \<open>
  Modelled from the spec: \<open>unidecode\<close> is a third-party package, absent from the
  repository's sources. It transliterates text to ASCII one code point at a time,
  "preserving case and spacing": a code point below \<open>0x80\<close> is kept as it is, one
  above \<open>0xeffff\<close> is dropped, any other is replaced by its table entry (empty
  when the table has none).
\<close>

definition unidecode_char :: "unicode_env \<Rightarrow> nat \<Rightarrow> ustring" where
  "unidecode_char E c =
     (if c < 0x80 then [c]
      else if c > 0xeffff then []
      else unidecode_table E c)"

definition unidecode :: "unicode_env \<Rightarrow> ustring \<Rightarrow> ustring" where
  "unidecode E s = concat (map (unidecode_char E) s)"

text \<open>\<open>force_text\<close> returns a text value unchanged.\<close>

definition force_text :: "ustring \<Rightarrow> ustring" where
  "force_text s = s"

text \<open>\<^verbatim>\<open>return force_text(unidecode(value))\<close>\<close>

definition to_ascii :: "unicode_env \<Rightarrow> ustring \<Rightarrow> ustring" where
  "to_ascii E v = force_text (unidecode E v)"

text \<open>
  \<^verbatim>\<open>ALPHA_REGEXP = re.compile('[\W_]+', re.UNICODE)\<close>

  \<open>re_word\<close> is the class \<open>\w\<close> under \<open>re.UNICODE\<close>: alphanumeric code points and the
  underscore (code point 95). \<open>ALPHA_REGEXP\<close> is the character class \<open>[\W_]\<close> of the
  pattern; the \<open>+\<close> of the pattern is in \<open>re_sub_class\<close>.
\<close>

definition re_word :: "unicode_env \<Rightarrow> nat \<Rightarrow> bool" where
  "re_word E c = (if c < 128 then is_ascii_alnum c \<or> c = 95 else unicode_isalnum E c)"

definition ALPHA_REGEXP :: "unicode_env \<Rightarrow> nat \<Rightarrow> bool" where
  "ALPHA_REGEXP E c = (\<not> re_word E c \<or> c = 95)"

text \<open>
  \<open>pattern.sub('', s)\<close> for a pattern \<open>[cls]+\<close>: scanning from the left, every maximal
  run of characters of the class is replaced by the empty text.
\<close>

function re_sub_class :: "(nat \<Rightarrow> bool) \<Rightarrow> ustring \<Rightarrow> ustring" where
  "re_sub_class p [] = []"
| "re_sub_class p (c # cs) =
     (if p c then re_sub_class p (dropWhile p cs) else c # re_sub_class p cs)"
  by pat_completeness auto
termination
  by (relation "measure (\<lambda>(p, s). length s)") (auto simp: length_dropWhile_le less_Suc_eq_le)

text \<open>
  \<open>str.lower()\<close>: on text that is all ASCII, the letters \<open>A\<close> to \<open>Z\<close> become \<open>a\<close> to \<open>z\<close>
  and nothing else changes; other text is lowercased by the runtime's character database.
\<close>

definition str_lower :: "unicode_env \<Rightarrow> ustring \<Rightarrow> ustring" where
  "str_lower E s = (if list_all (\<lambda>c. c < 128) s then map ascii_tolower s else unicode_lower E s)"

text \<open>\<^verbatim>\<open>return ALPHA_REGEXP.sub('', to_ascii(value)).lower()\<close>\<close>

definition to_search :: "unicode_env \<Rightarrow> ustring \<Rightarrow> ustring" where
  "to_search E v = str_lower E (re_sub_class (ALPHA_REGEXP E) (to_ascii E v))"

text \<open>A search key: lowercase ASCII letters and digits only.\<close>

definition is_search_key :: "ustring \<Rightarrow> bool" where
  "is_search_key k = list_all (\<lambda>c. is_ascii_lower c \<or> is_ascii_digit c) k"

text \<open>
  A sample environment for concrete runs: the table entries of \<open>unidecode\<close> for
  e-acute (233) and c-cedilla (231); the letters above ASCII that are alphanumeric;
  lowercasing above ASCII left alone.
\<close>

definition sample_env :: unicode_env where
  "sample_env = \<lparr> unidecode_table = (\<lambda>c. if c = 233 then [101] else if c = 231 then [99] else []),
                  unicode_isalnum = (\<lambda>c. c = 233 \<or> c = 231),
                  unicode_lower = (\<lambda>s. s) \<rparr>"

text \<open>The French name of the French Republic as code points (233 is e-acute, 231 is c-cedilla).\<close>

definition republique_francaise :: ustring where
  "republique_francaise =
     ustr ''R'' @ [233] @ ustr ''publique Fran'' @ [231] @ ustr ''aise''"


section \<open>Entities\<close>

text \<open>
  Every raise of the code is a value of \<open>error\<close>; a function that can raise returns
  \<open>error + 'a\<close>, with \<open>Inl\<close> the exception.
\<close>

datatype error = DoesNotExist | UnknownTimeZoneError | AttributeError | IntegrityError

text \<open>
  The model classes, with the fields the functions below read. \<open>name\<close> and
  \<open>display_name\<close> are the translated fields in the active language;
  \<open>display_name = None\<close> stands for an attribute that is missing or \<open>None\<close>, which is what
  \<^verbatim>\<open>getattr(self, 'display_name', None)\<close> yields then. A foreign key is the \<open>_id\<close>
  column: \<open>None\<close> or the primary key of the row referred to. The \<open>country\<close> column of a region
  is \<open>region_country_id\<close> here, that of a city \<open>country_id\<close>.
\<close>

record Base =
  pk :: int
  name :: ustring
  display_name :: "ustring option"
  name_ascii :: ustring
  slug :: ustring

record AbstractCountry = Base +
  continent :: ustring

record AbstractRegion = Base +
  region_country_id :: "int option"

record AbstractCity = Base +
  search_names :: ustring
  region_id :: "int option"
  country_id :: "int option"
  timezone :: "ustring option"

text \<open>The stored rows, one table per model.\<close>

record store =
  countries :: "AbstractCountry list"
  regions :: "AbstractRegion list"
  cities :: "AbstractCity list"

text \<open>
  \<^verbatim>\<open>
  def __str__(self):
      display_name = getattr(self, 'display_name', None)
      if display_name:
          return display_name
      return self.name
  \<close>
  \<open>Base.__str__\<close> is what regions and cities inherit; \<open>AbstractCountry\<close> overrides it.
\<close>

definition Base_str :: "'a Base_scheme \<Rightarrow> ustring" where
  "Base_str self =
     (case display_name self of
        None \<Rightarrow> name self
      | Some d \<Rightarrow> if d \<noteq> [] then d else name self)"

definition AbstractCountry_str :: "AbstractCountry \<Rightarrow> ustring" where
  "AbstractCountry_str self = name self"


section \<open>Display name\<close>

text \<open>
  Reading \<open>self.country\<close> or \<open>self.region\<close> fetches the row whose primary key is the
  foreign key; it raises when the key is \<open>None\<close> or no such row is stored.
\<close>

definition get_country :: "store \<Rightarrow> int option \<Rightarrow> error + AbstractCountry" where
  "get_country S fk =
     (case fk of
        None \<Rightarrow> Inl DoesNotExist
      | Some i \<Rightarrow> (case find (\<lambda>c. pk c = i) (countries S) of
                    None \<Rightarrow> Inl DoesNotExist
                  | Some c \<Rightarrow> Inr c))"

definition get_region :: "store \<Rightarrow> int option \<Rightarrow> error + AbstractRegion" where
  "get_region S fk =
     (case fk of
        None \<Rightarrow> Inl DoesNotExist
      | Some i \<Rightarrow> (case find (\<lambda>r. pk r = i) (regions S) of
                    None \<Rightarrow> Inl DoesNotExist
                  | Some r \<Rightarrow> Inr r))"

text \<open>\<^verbatim>\<open>'%s, %s' % (a, b)\<close> and \<^verbatim>\<open>'%s, %s, %s' % (a, b, c)\<close>\<close>

definition format2 :: "ustring \<Rightarrow> ustring \<Rightarrow> ustring" where
  "format2 a b = a @ ustr '', '' @ b"

definition format3 :: "ustring \<Rightarrow> ustring \<Rightarrow> ustring \<Rightarrow> ustring" where
  "format3 a b c = a @ ustr '', '' @ b @ ustr '', '' @ c"

text \<open>The truth value of a foreign key column in an \<open>if\<close>: \<open>None\<close> and \<open>0\<close> are false.\<close>

definition truthy_id :: "int option \<Rightarrow> bool" where
  "truthy_id x = (case x of None \<Rightarrow> False | Some i \<Rightarrow> i \<noteq> 0)"

text \<open>\<^verbatim>\<open>return '%s, %s' % (self.name, self.country.name)\<close> of \<open>AbstractRegion\<close>\<close>

definition AbstractRegion_get_display_name :: "store \<Rightarrow> AbstractRegion \<Rightarrow> error + ustring" where
  "AbstractRegion_get_display_name S self =
     (case get_country S (region_country_id self) of
        Inl e \<Rightarrow> Inl e
      | Inr co \<Rightarrow> Inr (format2 (name self) (name co)))"

text \<open>
  \<^verbatim>\<open>
  def get_display_name(self):
      if self.region_id:
          try:
              return '%s, %s, %s' % (self.name, self.region.name,
                                 self.country.name)
          except:
              return '%s, %s' % (self.name, self.country.name)
      else:
          return '%s, %s' % (self.name, self.country.name)
  \<close>
  \<open>city_name_region_country\<close> is the body of the \<open>try\<close>, \<open>city_name_country\<close> the
  expression of the handler and of the \<open>else\<close> branch. The handler catches every
  exception of the \<open>try\<close>; nothing catches one raised in the handler.
\<close>

definition city_name_country :: "store \<Rightarrow> AbstractCity \<Rightarrow> error + ustring" where
  "city_name_country S self =
     (case get_country S (country_id self) of
        Inl e \<Rightarrow> Inl e
      | Inr co \<Rightarrow> Inr (format2 (name self) (name co)))"

definition city_name_region_country :: "store \<Rightarrow> AbstractCity \<Rightarrow> error + ustring" where
  "city_name_region_country S self =
     (case get_region S (region_id self) of
        Inl e \<Rightarrow> Inl e
      | Inr rg \<Rightarrow>
          (case get_country S (country_id self) of
             Inl e \<Rightarrow> Inl e
           | Inr co \<Rightarrow> Inr (format3 (name self) (name rg) (name co))))"

definition AbstractCity_get_display_name :: "store \<Rightarrow> AbstractCity \<Rightarrow> error + ustring" where
  "AbstractCity_get_display_name S self =
     (if truthy_id (region_id self) then
        (case city_name_region_country S self of
           Inr s \<Rightarrow> Inr s
         | Inl e \<Rightarrow> city_name_country S self)
      else city_name_country S self)"


section \<open>Timezone\<close>

text \<open>
  \<open>pytz.timezone\<close> looks a zone name up in the zone database of the \<open>pytz\<close> package,
  which is a parameter here: \<open>tzdb z = None\<close> when \<open>z\<close> is no zone it knows, and then
  \<open>UnknownTimeZoneError\<close> is raised. Called with \<open>None\<close> it raises too (on
  \<open>zone.upper()\<close>).
\<close>

definition pytz_timezone :: "(ustring \<Rightarrow> 'tz option) \<Rightarrow> ustring option \<Rightarrow> error + 'tz" where
  "pytz_timezone tzdb zone =
     (case zone of
        None \<Rightarrow> Inl AttributeError
      | Some z \<Rightarrow> (case tzdb z of None \<Rightarrow> Inl UnknownTimeZoneError | Some t \<Rightarrow> Inr t))"

text \<open>
  \<^verbatim>\<open>
  def get_timezone_info(self):
      try:
          return pytz.timezone(self.timezone)
      except (pytz.UnknownTimeZoneError, AttributeError):
          return pytz.timezone(settings.TIME_ZONE)
  \<close>
\<close>

definition get_timezone_info ::
  "(ustring \<Rightarrow> 'tz option) \<Rightarrow> ustring \<Rightarrow> AbstractCity \<Rightarrow> error + 'tz" where
  "get_timezone_info tzdb TIME_ZONE self =
     (case pytz_timezone tzdb (timezone self) of
        Inr t \<Rightarrow> Inr t
      | Inl e \<Rightarrow>
          if e = UnknownTimeZoneError \<or> e = AttributeError
          then pytz_timezone tzdb (Some TIME_ZONE)
          else Inl e)"


section \<open>Sample data\<close>

text \<open>A zone database that knows two zones; a zone's info is written as its name.\<close>

definition sample_tzdb :: "ustring \<Rightarrow> ustring option" where
  "sample_tzdb z = (if z = ustr ''UTC'' \<or> z = ustr ''Europe/Paris'' then Some z else None)"

text \<open>Code point 206 is the capital I with circumflex.\<close>

definition france :: AbstractCountry where
  "france = \<lparr> pk = 1, name = ustr ''France'', display_name = None,
              name_ascii = ustr ''France'', slug = ustr ''france'', continent = ustr ''EU'' \<rparr>"

definition ile_de_france :: AbstractRegion where
  "ile_de_france = \<lparr> pk = 7, name = [206] @ ustr ''le-de-France'',
                     display_name = Some ([206] @ ustr ''le-de-France, France''),
                     name_ascii = ustr ''Ile-de-France'', slug = ustr ''ile-de-france'',
                     region_country_id = Some 1 \<rparr>"

definition paris :: AbstractCity where
  "paris = \<lparr> pk = 3, name = ustr ''Paris'', display_name = Some [],
             name_ascii = ustr ''Paris'', slug = ustr ''paris'',
             search_names = ustr ''parisfrance'', region_id = Some 7, country_id = Some 1,
             timezone = Some (ustr ''Europe/Paris'') \<rparr>"

definition sample_store :: store where
  "sample_store = \<lparr> countries = [france], regions = [ile_de_france], cities = [paris] \<rparr>"

text \<open>A store whose only region has the primary key \<open>0\<close>.\<close>

definition region_zero :: AbstractRegion where
  "region_zero = ile_de_france \<lparr> pk := 0 \<rparr>"

definition zero_store :: store where
  "zero_store = \<lparr> countries = [france], regions = [region_zero], cities = [] \<rparr>"


section \<open>Search lookup\<close>

text \<open>
  \<open>icontains\<close> is the lookup of the framework that \<open>ToSearchIContainsLookup\<close> extends:
  the database tests whether the stored text contains the value, ignoring case. Case
  is folded here as ASCII case is, and by a parameter \<open>F\<close> of the database above ASCII.
\<close>

definition db_casefold :: "(nat \<Rightarrow> nat) \<Rightarrow> nat \<Rightarrow> nat" where
  "db_casefold F c = (if c < 128 then ascii_tolower c else F c)"

definition icontains :: "(nat \<Rightarrow> nat) \<Rightarrow> ustring \<Rightarrow> ustring \<Rightarrow> bool" where
  "icontains F needle hay = sublist (map (db_casefold F) needle) (map (db_casefold F) hay)"

text \<open>
  \<^verbatim>\<open>
  def get_prep_lookup(self):
      value = super(ToSearchIContainsLookup, self).get_prep_lookup()
      return to_search(value)
  \<close>
  The lookup is registered on \<open>ToSearchTextField\<close>, the type of \<open>search_names\<close>:
  \<open>ToSearchIContainsLookup E F v stored\<close> is the test \<open>search_names__icontains = v\<close> on
  a city whose \<open>search_names\<close> is \<open>stored\<close>.
\<close>

definition get_prep_lookup :: "unicode_env \<Rightarrow> ustring \<Rightarrow> ustring" where
  "get_prep_lookup E v = to_search E v"

definition ToSearchIContainsLookup ::
  "unicode_env \<Rightarrow> (nat \<Rightarrow> nat) \<Rightarrow> ustring \<Rightarrow> ustring \<Rightarrow> bool" where
  "ToSearchIContainsLookup E F v stored = icontains F (get_prep_lookup E v) stored"

text \<open>
  The change list of the admin (\<open>CityChangeList\<close>) is not modelled: how it splits the
  text of the search box into words and which fields it searches is the framework's.
\<close>


section \<open>Slug allocation\<close>

text \<open>
  \<^verbatim>\<open>slug = autoslug.AutoSlugField(populate_from='name_ascii')\<close>

  The field is declared on \<open>Base\<close> with \<open>populate_from\<close> only: neither \<open>unique\<close> nor
  \<open>unique_with\<close> is passed, and both keep their defaults.
\<close>

record AutoSlugField =
  populate_from :: string
  unique :: bool
  unique_with :: "string list"

definition Base_slug :: AutoSlugField where
  "Base_slug = \<lparr> populate_from = ''name_ascii'', unique = False, unique_with = [] \<rparr>"

text \<open>The decimal digits of a number, as \<^verbatim>\<open>'%d'\<close> writes them.\<close>

fun str_nat :: "nat \<Rightarrow> ustring" where
  "str_nat n = (if n < 10 then [48 + n] else str_nat (n div 10) @ [48 + n mod 10])"

text \<open>A candidate \<open>base-2\<close>, \<open>base-3\<close>, ...: the base, a hyphen (code point 45), the index.\<close>

definition suffixed :: "ustring \<Rightarrow> nat \<Rightarrow> ustring" where
  "suffixed original_slug index = original_slug @ [45] @ str_nat index"

text \<open>
  Modelled from the spec: the \<open>autoslug\<close> package, which allocates the slug when an
  entity is saved, is third-party and absent from the repository's sources. Its probe
  returns the candidate when no rival in the scope uses it (\<open>rivals\<close> is the spec's
  \<open>exists_in_scope\<close>), and otherwise goes on with the next numeric suffix, starting at
  \<open>2\<close>. The loop ends only at an unused candidate, so it is a partial function:
  \<open>None\<close> is a probe that never returns.
\<close>

partial_function (option) generate_unique_slug_loop ::
  "(ustring \<Rightarrow> bool) \<Rightarrow> ustring \<Rightarrow> nat \<Rightarrow> ustring \<Rightarrow> ustring option" where
  "generate_unique_slug_loop rivals original_slug index cand =
     (if \<not> rivals cand then Some cand
      else generate_unique_slug_loop rivals original_slug (index + 1)
             (suffixed original_slug (index + 1)))"

declare generate_unique_slug_loop.simps [code]

definition generate_unique_slug :: "(ustring \<Rightarrow> bool) \<Rightarrow> ustring \<Rightarrow> ustring option" where
  "generate_unique_slug rivals cand = generate_unique_slug_loop rivals cand 1 cand"

text \<open>
  Modelled from the spec: what the field of the \<open>autoslug\<close> package does before a save.
  The base slug is \<open>slugify\<close> of the attribute named by \<open>populate_from\<close>; \<open>slugify\<close>,
  which reduces a name to a URL-safe token, is a parameter. Whether the probe runs is
  decided by the declaration of the field, through the two options the package has for
  it: a field declared \<open>unique\<close> or \<open>unique_with\<close> is probed; for a field declared
  with neither, the base slug is the slug.
\<close>

definition pre_save ::
  "AutoSlugField \<Rightarrow> (ustring \<Rightarrow> ustring) \<Rightarrow> (ustring \<Rightarrow> bool) \<Rightarrow> ustring \<Rightarrow> ustring option" where
  "pre_save field slugify rivals v =
     (let cand = slugify v
      in if unique field \<or> unique_with field \<noteq> []
         then generate_unique_slug rivals cand
         else Some cand)"

text \<open>
  Allocating for a list of names in one scope, one after the other: each slug allocated
  is in use when the next name comes.
\<close>

definition exists_in_scope :: "ustring list \<Rightarrow> ustring \<Rightarrow> bool" where
  "exists_in_scope used s = (s \<in> set used)"

fun allocate_all ::
  "AutoSlugField \<Rightarrow> (ustring \<Rightarrow> ustring) \<Rightarrow> ustring list \<Rightarrow> ustring list \<Rightarrow> ustring list option" where
  "allocate_all field slugify used [] = Some []"
| "allocate_all field slugify used (v # vs) =
     (case pre_save field slugify (exists_in_scope used) v of
        None \<Rightarrow> None
      | Some s \<Rightarrow> (case allocate_all field slugify (s # used) vs of
                     None \<Rightarrow> None
                   | Some ss \<Rightarrow> Some (s # ss)))"

text \<open>
  For concrete runs: a field declared \<open>unique\<close>, and a \<open>slugify\<close> that lowercases, which
  is all that slugifying a name of ASCII letters does.
\<close>

definition unique_slug_field :: AutoSlugField where
  "unique_slug_field = \<lparr> populate_from = ''name_ascii'', unique = True, unique_with = [] \<rparr>"

definition sample_slugify :: "ustring \<Rightarrow> ustring" where
  "sample_slugify v = map ascii_tolower v"


section \<open>Writes and the uniqueness constraints\<close>















section \<open>Properties of the normalizer\<close>

lemma sample_env_ascii: "ascii_table sample_env"
  by (simp add: ascii_table_def sample_env_def)

lemma filter_dropWhile_not: "filter (\<lambda>c. \<not> p c) (dropWhile p cs) = filter (\<lambda>c. \<not> p c) cs"
  by (induction cs) auto

lemma re_sub_class_filter: "re_sub_class p s = filter (\<lambda>c. \<not> p c) s"
  by (induction p s rule: re_sub_class.induct) (auto simp: filter_dropWhile_not)

lemma unidecode_char_ascii:
  "ascii_table E \<Longrightarrow> list_all (\<lambda>d. d < 128) (unidecode_char E c)"
  by (simp add: ascii_table_def unidecode_char_def)

lemma unidecode_ascii: "ascii_table E \<Longrightarrow> list_all (\<lambda>d. d < 128) (unidecode E s)"
  by (induction s) (auto simp: unidecode_def unidecode_char_ascii)

lemma unidecode_fixed: "list_all (\<lambda>c. c < 128) s \<Longrightarrow> unidecode E s = s"
  by (induction s) (auto simp: unidecode_def unidecode_char_def)

lemma ALPHA_REGEXP_ascii: "c < 128 \<Longrightarrow> (\<not> ALPHA_REGEXP E c) = is_ascii_alnum c"
  by (auto simp: ALPHA_REGEXP_def re_word_def is_ascii_alnum_def is_ascii_upper_def
      is_ascii_lower_def is_ascii_digit_def)

lemma filter_ALPHA_REGEXP_ascii:
  "list_all (\<lambda>c. c < 128) s \<Longrightarrow> filter (\<lambda>c. \<not> ALPHA_REGEXP E c) s = filter is_ascii_alnum s"
  by (induction s) (auto simp: ALPHA_REGEXP_ascii)

lemma to_search_eq:
  assumes "ascii_table E"
  shows "to_search E s = map ascii_tolower (filter is_ascii_alnum (to_ascii E s))"
proof -
  have a: "list_all (\<lambda>c. c < 128) (unidecode E s)"
    using assms by (rule unidecode_ascii)
  then have "list_all (\<lambda>c. c < 128) (filter is_ascii_alnum (unidecode E s))"
    by (simp add: list_all_iff)
  with a show ?thesis
    by (simp add: to_search_def to_ascii_def force_text_def str_lower_def
        re_sub_class_filter filter_ALPHA_REGEXP_ascii)
qed

lemma tolower_alnum: "is_ascii_alnum c \<Longrightarrow> is_ascii_lower (ascii_tolower c) \<or> is_ascii_digit (ascii_tolower c)"
  by (auto simp: is_ascii_alnum_def ascii_tolower_def is_ascii_upper_def
      is_ascii_lower_def is_ascii_digit_def)

lemma to_search_is_key: "ascii_table E \<Longrightarrow> is_search_key (to_search E s)"
  by (simp add: to_search_eq is_search_key_def list_all_iff tolower_alnum)

lemma search_key_ascii: "is_search_key k \<Longrightarrow> list_all (\<lambda>c. c < 128) k"
  by (auto simp: is_search_key_def list_all_iff is_ascii_lower_def is_ascii_digit_def)

lemma search_key_alnum: "is_search_key k \<Longrightarrow> filter is_ascii_alnum k = k"
  by (induction k) (auto simp: is_search_key_def is_ascii_alnum_def)

lemma search_key_tolower: "is_search_key k \<Longrightarrow> map ascii_tolower k = k"
  by (induction k)
    (auto simp: is_search_key_def ascii_tolower_def is_ascii_upper_def
      is_ascii_lower_def is_ascii_digit_def)

lemma to_search_fixed: "is_search_key k \<Longrightarrow> to_search E k = k"
  by (simp add: to_search_def to_ascii_def force_text_def str_lower_def re_sub_class_filter
      unidecode_fixed search_key_ascii filter_ALPHA_REGEXP_ascii search_key_alnum
      search_key_tolower)

lemma paris_texas: "to_search E (ustr ''Paris, Texas'') = ustr ''paristexas''"
  by (simp add: to_search_def to_ascii_def force_text_def unidecode_def unidecode_char_def
      str_lower_def ustr_def ALPHA_REGEXP_def re_word_def is_ascii_alnum_def is_ascii_upper_def
      is_ascii_lower_def is_ascii_digit_def ascii_tolower_def)

lemma paris_texas_lower: "to_search E (ustr ''paris texas'') = ustr ''paristexas''"
  by (simp add: to_search_def to_ascii_def force_text_def unidecode_def unidecode_char_def
      str_lower_def ustr_def ALPHA_REGEXP_def re_word_def is_ascii_alnum_def is_ascii_upper_def
      is_ascii_lower_def is_ascii_digit_def ascii_tolower_def)

lemma to_search_republique:
  "to_search sample_env republique_francaise = ustr ''republiquefrancaise''"
  by (simp add: to_search_def to_ascii_def force_text_def unidecode_def unidecode_char_def
      str_lower_def ustr_def ALPHA_REGEXP_def re_word_def is_ascii_alnum_def is_ascii_upper_def
      is_ascii_lower_def is_ascii_digit_def ascii_tolower_def sample_env_def
      republique_francaise_def)

text \<open>
  C1. With the ASCII-only tables of \<open>unidecode\<close>, \<open>to_search\<close> of any text is its
  transliteration \<open>to_ascii\<close> with every character that is not an ASCII letter or digit
  removed, lowercased; \<open>Paris, Texas\<close> and \<open>paris texas\<close> both give \<open>paristexas\<close>.
\<close>

theorem to_search_transliterate_strip_lower:
  "(ascii_table E \<longrightarrow>
      to_search E s = map ascii_tolower (filter is_ascii_alnum (to_ascii E s)))
   \<and> to_search E (ustr ''Paris, Texas'') = to_search E (ustr ''paris texas'')
   \<and> to_search E (ustr ''paris texas'') = ustr ''paristexas''"
  by (simp add: to_search_eq paris_texas paris_texas_lower)

theorem to_search_transliterate_strip_lower_witness:
  "ascii_table sample_env
   \<and> to_search sample_env republique_francaise
       = map ascii_tolower (filter is_ascii_alnum (to_ascii sample_env republique_francaise))
   \<and> to_search sample_env republique_francaise = ustr ''republiquefrancaise''
   \<and> to_search sample_env (ustr ''Paris, Texas'') = ustr ''paristexas''"
  using to_search_transliterate_strip_lower [of sample_env republique_francaise]
  by (simp add: sample_env_ascii to_search_republique)

text \<open>
  C2. \<open>to_search\<close> is idempotent: with the ASCII-only tables of \<open>unidecode\<close>, applying
  it to its own result changes nothing.
\<close>

theorem to_search_idempotent:
  "ascii_table E \<Longrightarrow> to_search E (to_search E s) = to_search E s"
  by (rule to_search_fixed) (rule to_search_is_key)

theorem to_search_idempotent_witness:
  "ascii_table sample_env
   \<and> to_search sample_env (to_search sample_env republique_francaise)
       = ustr ''republiquefrancaise''"
  using to_search_idempotent [OF sample_env_ascii, of republique_francaise]
  by (simp add: sample_env_ascii to_search_republique)

text \<open>
  C9. \<open>to_ascii\<close> is the identity on a name made of ASCII letters, digits and spaces
  only.
\<close>

theorem to_ascii_identity_on_plain_names:
  "list_all (\<lambda>c. is_ascii_alnum c \<or> c = 32) v \<Longrightarrow> to_ascii E v = v"
proof -
  assume "list_all (\<lambda>c. is_ascii_alnum c \<or> c = 32) v"
  then have "list_all (\<lambda>c. c < 128) v"
    by (auto simp: list_all_iff is_ascii_alnum_def is_ascii_upper_def is_ascii_lower_def
        is_ascii_digit_def)
  then show ?thesis
    by (simp add: to_ascii_def force_text_def unidecode_fixed)
qed

theorem to_ascii_identity_on_plain_names_witness:
  "list_all (\<lambda>c. is_ascii_alnum c \<or> c = 32) (ustr ''New York 10'')
   \<and> to_ascii sample_env (ustr ''New York 10'') = ustr ''New York 10''"
proof -
  have h: "list_all (\<lambda>c. is_ascii_alnum c \<or> c = 32) (ustr ''New York 10'')"
    by (simp add: ustr_def is_ascii_alnum_def is_ascii_upper_def is_ascii_lower_def
        is_ascii_digit_def)
  from to_ascii_identity_on_plain_names [OF h, of sample_env] h show ?thesis
    by simp
qed

section \<open>Properties of the entities\<close>

text \<open>
  C10. The string rendering \<open>Base.__str__\<close> of an entity is its \<open>display_name\<close> when
  that attribute is there and not empty, and its \<open>name\<close> otherwise; the rendering of a
  country is always its \<open>name\<close>.
\<close>

theorem str_display_name_or_name:
  "(\<forall>d. display_name self = Some d \<and> d \<noteq> [] \<longrightarrow> Base_str self = d)
   \<and> (display_name self = None \<or> display_name self = Some [] \<longrightarrow> Base_str self = name self)
   \<and> AbstractCountry_str country = name country"
  by (auto simp: Base_str_def AbstractCountry_str_def)

theorem str_display_name_or_name_witness:
  "display_name ile_de_france = Some ([206] @ ustr ''le-de-France, France'')
   \<and> Base_str ile_de_france = [206] @ ustr ''le-de-France, France''
   \<and> display_name paris = Some []
   \<and> Base_str paris = ustr ''Paris''
   \<and> AbstractCountry_str france = ustr ''France''"
  using str_display_name_or_name [of ile_de_france france] str_display_name_or_name [of paris france]
  by (simp add: ile_de_france_def paris_def france_def ustr_def)

text \<open>
  Where the country can be dereferenced: the display name of a region is
  \<open>name, country.name\<close>; that of a city whose region key is set, not \<open>0\<close>, and can be
  dereferenced is \<open>name, region.name, country.name\<close>; that of a city whose region key is
  set and cannot be dereferenced, or is unset, is \<open>name, country.name\<close>.
\<close>

lemma get_display_name_cases:
  "(get_country S (region_country_id r) = Inr co \<longrightarrow>
      AbstractRegion_get_display_name S r = Inr (format2 (name r) (name co)))
   \<and> (get_country S (country_id c) = Inr co \<longrightarrow>
        (\<forall>i rg. region_id c = Some i \<and> i \<noteq> 0 \<and> get_region S (Some i) = Inr rg \<longrightarrow>
           AbstractCity_get_display_name S c = Inr (format3 (name c) (name rg) (name co)))
        \<and> (\<forall>i e. region_id c = Some i \<and> get_region S (Some i) = Inl e \<longrightarrow>
           AbstractCity_get_display_name S c = Inr (format2 (name c) (name co)))
        \<and> (region_id c = None \<longrightarrow>
           AbstractCity_get_display_name S c = Inr (format2 (name c) (name co))))"
  by (auto simp: AbstractRegion_get_display_name_def AbstractCity_get_display_name_def
      city_name_country_def city_name_region_country_def truthy_id_def)

lemma get_display_name_cases_sample:
  "get_country sample_store (region_country_id ile_de_france) = Inr france
   \<and> AbstractRegion_get_display_name sample_store ile_de_france
       = Inr ([206] @ ustr ''le-de-France, France'')
   \<and> get_country sample_store (country_id paris) = Inr france
   \<and> region_id paris = Some 7 \<and> get_region sample_store (Some 7) = Inr ile_de_france
   \<and> AbstractCity_get_display_name sample_store paris
       = Inr (ustr ''Paris, '' @ [206] @ ustr ''le-de-France, France'')
   \<and> get_region sample_store (Some 9) = Inl DoesNotExist
   \<and> AbstractCity_get_display_name sample_store (paris\<lparr>region_id := Some 9\<rparr>)
       = Inr (ustr ''Paris, France'')
   \<and> AbstractCity_get_display_name sample_store (paris\<lparr>region_id := None\<rparr>)
       = Inr (ustr ''Paris, France'')"
  using get_display_name_cases [of sample_store ile_de_france france paris]
    get_display_name_cases [of sample_store ile_de_france france "paris\<lparr>region_id := Some 9\<rparr>"]
    get_display_name_cases [of sample_store ile_de_france france "paris\<lparr>region_id := None\<rparr>"]
  by (simp add: paris_def sample_store_def ile_de_france_def france_def
      get_region_def get_country_def format2_def format3_def ustr_def)

text \<open>
  C3. The code misses the claim at one input: a city whose region has the primary key
  \<open>0\<close>. The region is set and can be dereferenced, and so can the country, yet the
  display name is \<open>Paris, France\<close> and not the three-part name the claim gives, since
  \<^verbatim>\<open>if self.region_id:\<close> takes the key \<open>0\<close> for an unset region.
\<close>

theorem city_region_zero_failing_input:
  "region_id (paris\<lparr>region_id := Some 0\<rparr>) = Some 0
   \<and> get_region zero_store (Some 0) = Inr region_zero
   \<and> get_country zero_store (country_id (paris\<lparr>region_id := Some 0\<rparr>)) = Inr france
   \<and> AbstractCity_get_display_name zero_store (paris\<lparr>region_id := Some 0\<rparr>)
       = Inr (ustr ''Paris, France'')
   \<and> AbstractCity_get_display_name zero_store (paris\<lparr>region_id := Some 0\<rparr>)
       \<noteq> Inr (format3 (name paris) (name region_zero) (name france))"
  by (simp add: paris_def zero_store_def region_zero_def ile_de_france_def france_def
      get_region_def get_country_def AbstractCity_get_display_name_def truthy_id_def
      city_name_country_def format2_def format3_def ustr_def)

text \<open>
  C4, as the claim states it, fails where the country reference cannot be dereferenced:
  the display name of a region, and of a city with the region set or unset, raises.
\<close>

theorem display_name_dangling_country_counterexample:
  "AbstractRegion_get_display_name sample_store (ile_de_france\<lparr>region_country_id := Some 5\<rparr>)
     = Inl DoesNotExist
   \<and> AbstractCity_get_display_name sample_store (paris\<lparr>country_id := Some 5\<rparr>) = Inl DoesNotExist
   \<and> AbstractCity_get_display_name sample_store (paris\<lparr>region_id := None, country_id := None\<rparr>)
       = Inl DoesNotExist"
  by (simp add: paris_def sample_store_def ile_de_france_def france_def
      get_region_def get_country_def AbstractCity_get_display_name_def truthy_id_def
      AbstractRegion_get_display_name_def city_name_country_def city_name_region_country_def)

text \<open>
  C4, amended. \<open>get_display_name\<close> of a region and of a city returns a string exactly
  when the country reference can be dereferenced, whatever the state of the city's
  region reference.
\<close>

theorem get_display_name_total_iff_country:
  "((\<exists>s. AbstractRegion_get_display_name S r = Inr s)
      = (\<exists>co. get_country S (region_country_id r) = Inr co))
   \<and> ((\<exists>s. AbstractCity_get_display_name S c = Inr s)
      = (\<exists>co. get_country S (country_id c) = Inr co))"
  by (auto simp: AbstractRegion_get_display_name_def AbstractCity_get_display_name_def
      city_name_country_def city_name_region_country_def split: sum.splits)

theorem get_display_name_total_iff_country_witness:
  "(\<exists>co. get_country sample_store (country_id (paris\<lparr>region_id := Some 9\<rparr>)) = Inr co)
   \<and> (\<exists>s. AbstractCity_get_display_name sample_store (paris\<lparr>region_id := Some 9\<rparr>) = Inr s)
   \<and> (\<exists>s. AbstractRegion_get_display_name sample_store ile_de_france = Inr s)"
proof -
  have a: "get_country sample_store (country_id (paris\<lparr>region_id := Some 9\<rparr>)) = Inr france"
    by (simp add: paris_def sample_store_def france_def get_country_def)
  have b: "get_country sample_store (region_country_id ile_de_france) = Inr france"
    by (simp add: ile_de_france_def sample_store_def france_def get_country_def)
  from a b get_display_name_total_iff_country
    [of sample_store ile_de_france "paris\<lparr>region_id := Some 9\<rparr>"]
  show ?thesis by auto
qed

text \<open>
  C5. With a default zone \<open>TIME_ZONE\<close> that the zone database knows,
  \<open>get_timezone_info\<close> never fails: it returns the info of the city's \<open>timezone\<close> when
  that is a zone the database knows, and the info of the default zone when the
  \<open>timezone\<close> is not a known zone (the empty name among them) or is \<open>None\<close>.
\<close>

theorem get_timezone_info_fallback:
  "tzdb TIME_ZONE = Some dz \<Longrightarrow>
     (\<forall>z t. timezone c = Some z \<and> tzdb z = Some t \<longrightarrow> get_timezone_info tzdb TIME_ZONE c = Inr t)
   \<and> (\<forall>z. timezone c = Some z \<and> tzdb z = None \<longrightarrow> get_timezone_info tzdb TIME_ZONE c = Inr dz)
   \<and> (timezone c = Some [] \<and> tzdb [] = None \<longrightarrow> get_timezone_info tzdb TIME_ZONE c = Inr dz)
   \<and> (timezone c = None \<longrightarrow> get_timezone_info tzdb TIME_ZONE c = Inr dz)
   \<and> (\<exists>t. get_timezone_info tzdb TIME_ZONE c = Inr t)"
  by (auto simp: get_timezone_info_def pytz_timezone_def split: option.splits)

theorem get_timezone_info_fallback_witness:
  "sample_tzdb (ustr ''UTC'') = Some (ustr ''UTC'')
   \<and> get_timezone_info sample_tzdb (ustr ''UTC'') (paris\<lparr>timezone := Some (ustr ''Not/AZone'')\<rparr>)
       = Inr (ustr ''UTC'')
   \<and> get_timezone_info sample_tzdb (ustr ''UTC'') (paris\<lparr>timezone := Some (ustr ''Europe/Paris'')\<rparr>)
       = Inr (ustr ''Europe/Paris'')
   \<and> get_timezone_info sample_tzdb (ustr ''UTC'') (paris\<lparr>timezone := Some []\<rparr>) = Inr (ustr ''UTC'')
   \<and> get_timezone_info sample_tzdb (ustr ''UTC'') (paris\<lparr>timezone := None\<rparr>) = Inr (ustr ''UTC'')"
proof -
  have h: "sample_tzdb (ustr ''UTC'') = Some (ustr ''UTC'')"
    by (simp add: sample_tzdb_def)
  have n: "sample_tzdb (ustr ''Not/AZone'') = None" "sample_tzdb [] = None"
    by (simp_all add: sample_tzdb_def ustr_def)
  have p: "sample_tzdb (ustr ''Europe/Paris'') = Some (ustr ''Europe/Paris'')"
    by (simp add: sample_tzdb_def)
  from h n p
    get_timezone_info_fallback [of sample_tzdb "ustr ''UTC''" "ustr ''UTC''"
      "paris\<lparr>timezone := Some (ustr ''Not/AZone'')\<rparr>"]
    get_timezone_info_fallback [of sample_tzdb "ustr ''UTC''" "ustr ''UTC''"
      "paris\<lparr>timezone := Some (ustr ''Europe/Paris'')\<rparr>"]
    get_timezone_info_fallback [of sample_tzdb "ustr ''UTC''" "ustr ''UTC''"
      "paris\<lparr>timezone := Some []\<rparr>"]
    get_timezone_info_fallback [of sample_tzdb "ustr ''UTC''" "ustr ''UTC''"
      "paris\<lparr>timezone := None\<rparr>"]
  show ?thesis by simp
qed

section \<open>Properties of the search lookup\<close>

lemma search_key_casefold: "is_search_key k \<Longrightarrow> map (db_casefold F) k = k"
  by (induction k)
    (auto simp: is_search_key_def db_casefold_def ascii_tolower_def is_ascii_upper_def
      is_ascii_lower_def is_ascii_digit_def)

lemma icontains_keys:
  "is_search_key k \<Longrightarrow> is_search_key stored \<Longrightarrow> icontains F k stored = sublist k stored"
  by (simp add: icontains_def search_key_casefold)

lemma search_key_republique: "is_search_key (ustr ''republiquefrancaise'')"
  by (simp add: is_search_key_def ustr_def is_ascii_lower_def is_ascii_digit_def)

lemma to_search_republique_query: "to_search E (ustr ''republique'') = ustr ''republique''"
  by (rule to_search_fixed)
    (simp add: is_search_key_def ustr_def is_ascii_lower_def is_ascii_digit_def)

lemma to_search_xyz: "to_search E (ustr ''xyz'') = ustr ''xyz''"
  by (rule to_search_fixed)
    (simp add: is_search_key_def ustr_def is_ascii_lower_def is_ascii_digit_def)

lemma republique_sublist: "sublist (ustr ''republique'') (ustr ''republiquefrancaise'')"
  by (simp add: ustr_def sublist_Cons_right)

lemma xyz_not_sublist: "\<not> sublist (ustr ''xyz'') (ustr ''republiquefrancaise'')"
  by (simp add: ustr_def sublist_Cons_right)

text \<open>
  C6. Through the lookup \<open>ToSearchIContainsLookup\<close>, a query matches a stored search
  key exactly when \<open>to_search\<close> of the query is a contiguous part of the stored key;
  \<open>republique\<close> matches \<open>republiquefrancaise\<close> and \<open>xyz\<close> does not.
\<close>

theorem search_matches_iff_sublist:
  "(ascii_table E \<and> is_search_key stored \<longrightarrow>
      ToSearchIContainsLookup E F q stored = sublist (to_search E q) stored)
   \<and> ToSearchIContainsLookup E F (ustr ''republique'') (ustr ''republiquefrancaise'')
   \<and> \<not> ToSearchIContainsLookup E F (ustr ''xyz'') (ustr ''republiquefrancaise'')"
proof -
  have a: "ToSearchIContainsLookup E F q stored = sublist (to_search E q) stored"
    if "ascii_table E" "is_search_key stored"
    using that
    by (simp add: ToSearchIContainsLookup_def get_prep_lookup_def icontains_keys
        to_search_is_key)
  have kq: "is_search_key (ustr ''republique'')" "is_search_key (ustr ''xyz'')"
    by (simp_all add: is_search_key_def ustr_def is_ascii_lower_def is_ascii_digit_def)
  have c: "ToSearchIContainsLookup E F (ustr ''republique'') (ustr ''republiquefrancaise'')"
    unfolding ToSearchIContainsLookup_def get_prep_lookup_def to_search_republique_query
      icontains_keys [OF kq(1) search_key_republique]
    by (rule republique_sublist)
  have d: "\<not> ToSearchIContainsLookup E F (ustr ''xyz'') (ustr ''republiquefrancaise'')"
    unfolding ToSearchIContainsLookup_def get_prep_lookup_def to_search_xyz
      icontains_keys [OF kq(2) search_key_republique]
    by (rule xyz_not_sublist)
  from a c d show ?thesis by blast
qed

theorem search_matches_iff_sublist_witness:
  "ascii_table sample_env \<and> is_search_key (to_search sample_env republique_francaise)
   \<and> ToSearchIContainsLookup sample_env (\<lambda>c. c) ([82, 233] @ ustr ''publique'')
       (to_search sample_env republique_francaise)
   \<and> sublist (to_search sample_env ([82, 233] @ ustr ''publique''))
       (to_search sample_env republique_francaise)"
proof -
  have k: "is_search_key (to_search sample_env republique_francaise)"
    by (rule to_search_is_key) (rule sample_env_ascii)
  have q: "to_search sample_env ([82, 233] @ ustr ''publique'') = ustr ''republique''"
    by (simp add: to_search_def to_ascii_def force_text_def unidecode_def unidecode_char_def
      str_lower_def ustr_def ALPHA_REGEXP_def re_word_def is_ascii_alnum_def is_ascii_upper_def
      is_ascii_lower_def is_ascii_digit_def ascii_tolower_def sample_env_def)
  from k q sample_env_ascii republique_sublist
    search_matches_iff_sublist [of sample_env "to_search sample_env republique_francaise"
      "\<lambda>c. c" "[82, 233] @ ustr ''publique''"]
  show ?thesis by (simp add: to_search_republique)
qed

section \<open>Properties of slug allocation\<close>

declare str_nat.simps [simp del]

lemma str_nat_not_Nil: "str_nat n \<noteq> []"
  by (subst str_nat.simps) simp

lemma str_nat_inj: "str_nat n = str_nat m \<Longrightarrow> n = m"
proof (induction n arbitrary: m rule: str_nat.induct)
  case (1 n)
  show ?case
  proof (cases "n < 10")
    case True
    show ?thesis
    proof (cases "m < 10")
      case True
      with \<open>n < 10\<close> "1.prems" show ?thesis
        by (simp add: str_nat.simps [of n] str_nat.simps [of m])
    next
      case False
      with \<open>n < 10\<close> "1.prems" str_nat_not_Nil [of "m div 10"] show ?thesis
        by (simp add: str_nat.simps [of n] str_nat.simps [of m])
    qed
  next
    case False
    show ?thesis
    proof (cases "m < 10")
      case True
      with \<open>\<not> n < 10\<close> "1.prems" str_nat_not_Nil [of "n div 10"] show ?thesis
        by (simp add: str_nat.simps [of n] str_nat.simps [of m])
    next
      case mf: False
      with False "1.prems" have e: "str_nat (n div 10) = str_nat (m div 10)" "n mod 10 = m mod 10"
        by (simp_all add: str_nat.simps [of n] str_nat.simps [of m])
      from "1.IH" [OF False e(1)] have "n div 10 = m div 10" .
      with e(2) show ?thesis
        by (metis div_mult_mod_eq)
    qed
  qed
qed

lemma suffixed_inj: "suffixed b i = suffixed b j \<Longrightarrow> i = j"
  by (simp add: suffixed_def str_nat_inj)

lemma loop_unused:
  "\<not> rivals c \<Longrightarrow> generate_unique_slug_loop rivals b i c = Some c"
  by (subst generate_unique_slug_loop.simps) simp

lemma loop_used:
  "rivals c \<Longrightarrow>
     generate_unique_slug_loop rivals b i c
       = generate_unique_slug_loop rivals b (i + 1) (suffixed b (i + 1))"
  by (subst generate_unique_slug_loop.simps) simp

lemma loop_first_unused:
  "i \<le> k \<Longrightarrow> \<forall>j. i \<le> j \<and> j < k \<longrightarrow> rivals (suffixed b j) \<Longrightarrow> \<not> rivals (suffixed b k) \<Longrightarrow>
     generate_unique_slug_loop rivals b i (suffixed b i) = Some (suffixed b k)"
proof (induction "k - i" arbitrary: i)
  case 0
  then have "i = k" by simp
  with 0 show ?case by (simp add: loop_unused)
next
  case (Suc d)
  then have lt: "i < k" by simp
  with Suc.prems have r: "rivals (suffixed b i)" by simp
  have "generate_unique_slug_loop rivals b (i + 1) (suffixed b (i + 1)) = Some (suffixed b k)"
  proof (rule Suc.hyps(1))
    show "d = k - (i + 1)" using Suc.hyps(2) by simp
    show "i + 1 \<le> k" using lt by simp
    show "\<forall>j. i + 1 \<le> j \<and> j < k \<longrightarrow> rivals (suffixed b j)" using Suc.prems(2) by simp
    show "\<not> rivals (suffixed b k)" by (rule Suc.prems(3))
  qed
  with r show ?case by (simp add: loop_used)
qed

lemma generate_unique_slug_unused:
  "\<not> rivals b \<Longrightarrow> generate_unique_slug rivals b = Some b"
  by (simp add: generate_unique_slug_def loop_unused)

lemma generate_unique_slug_first_unused:
  assumes "rivals b" "2 \<le> k" "\<forall>j. 2 \<le> j \<and> j < k \<longrightarrow> rivals (suffixed b j)"
    "\<not> rivals (suffixed b k)"
  shows "generate_unique_slug rivals b = Some (suffixed b k)"
proof -
  have "generate_unique_slug_loop rivals b 1 b
          = generate_unique_slug_loop rivals b (1 + 1) (suffixed b (1 + 1))"
    using assms(1) by (rule loop_used)
  then have "generate_unique_slug rivals b = generate_unique_slug_loop rivals b 2 (suffixed b 2)"
    by (simp only: generate_unique_slug_def one_add_one)
  also have "\<dots> = Some (suffixed b k)"
    using assms(2-4) by (rule loop_first_unused)
  finally show ?thesis .
qed

lemma some_suffix_unused:
  assumes "finite {s. rivals s}"
  shows "\<exists>k\<ge>2. \<not> rivals (suffixed b k)"
proof (rule ccontr)
  assume "\<not> (\<exists>k\<ge>2. \<not> rivals (suffixed b k))"
  then have "suffixed b ` {2..} \<subseteq> {s. rivals s}" by auto
  with assms have "finite (suffixed b ` {2..})" by (rule rev_finite_subset)
  moreover have "inj_on (suffixed b) {2..}"
    by (auto simp: inj_on_def dest: suffixed_inj)
  ultimately have "finite {2::nat ..}" by (rule finite_imageD)
  then show False by (simp add: infinite_Ici)
qed

lemma generate_unique_slug_returns:
  assumes "finite {s. rivals s}"
  shows "\<exists>s. generate_unique_slug rivals b = Some s \<and> \<not> rivals s"
proof (cases "rivals b")
  case False
  then show ?thesis by (auto simp: generate_unique_slug_unused)
next
  case True
  define P where "P k = (2 \<le> k \<and> \<not> rivals (suffixed b k))" for k
  from some_suffix_unused [OF assms, of b] have ex: "\<exists>k. P k" by (auto simp: P_def)
  define k where "k = (LEAST k. P k)"
  have Pk: "P k" unfolding k_def using ex by (auto intro: LeastI_ex)
  have least: "\<not> P j" if "j < k" for j
    using that unfolding k_def by (rule not_less_Least)
  have "generate_unique_slug rivals b = Some (suffixed b k)"
  proof (rule generate_unique_slug_first_unused [of rivals b k])
    show "rivals b" by (rule True)
    show "2 \<le> k" using Pk by (simp add: P_def)
    show "\<forall>j. 2 \<le> j \<and> j < k \<longrightarrow> rivals (suffixed b j)"
      using least by (auto simp: P_def)
    show "\<not> rivals (suffixed b k)" using Pk by (simp add: P_def)
  qed
  with Pk show ?thesis by (auto simp: P_def)
qed


lemma three_same_names:
  assumes "slugify v = b" "unique field \<or> unique_with field \<noteq> []"
  shows "allocate_all field slugify [] [v, v, v] = Some [b, suffixed b 2, suffixed b 3]"
proof -
  have n2: "suffixed b 2 \<noteq> b" and n3: "suffixed b 3 \<noteq> b"
    by (simp_all add: suffixed_def)
  have n23: "suffixed b 3 \<noteq> suffixed b 2"
    using suffixed_inj [of b 3 2] by auto
  have r1: "generate_unique_slug (exists_in_scope []) b = Some b"
    by (rule generate_unique_slug_unused) (simp add: exists_in_scope_def)
  have r2: "generate_unique_slug (exists_in_scope [b]) b = Some (suffixed b 2)"
    by (rule generate_unique_slug_first_unused [of "exists_in_scope [b]" b 2])
      (use n2 in \<open>auto simp: exists_in_scope_def\<close>)
  have r3: "generate_unique_slug (exists_in_scope [suffixed b 2, b]) b = Some (suffixed b 3)"
  proof (rule generate_unique_slug_first_unused [of "exists_in_scope [suffixed b 2, b]" b 3])
    show "\<forall>j. 2 \<le> j \<and> j < 3 \<longrightarrow> exists_in_scope [suffixed b 2, b] (suffixed b j)"
    proof (intro allI impI)
      fix j :: nat assume "2 \<le> j \<and> j < 3"
      then have "j = 2" by simp
      then show "exists_in_scope [suffixed b 2, b] (suffixed b j)"
        by (simp add: exists_in_scope_def)
    qed
  qed (use n3 n23 in \<open>auto simp: exists_in_scope_def\<close>)
  from assms r1 r2 r3 show ?thesis by (simp add: pre_save_def)
qed

lemma suffixed_georgia:
  "suffixed (ustr ''georgia'') 2 = ustr ''georgia-2''"
  "suffixed (ustr ''georgia'') 3 = ustr ''georgia-3''"
  by (simp_all add: suffixed_def ustr_def str_nat.simps)

lemma base_slug_no_probe: "pre_save Base_slug slugify rivals v = Some (slugify v)"
  by (simp add: pre_save_def Base_slug_def)

lemma finite_exists_in_scope: "finite {s. exists_in_scope used s}"
  by (simp add: exists_in_scope_def)

text \<open>
  C7, as the claim states it, fails on the field as the code declares it: with
  \<open>georgia\<close> in use in the scope the slug allocated for \<open>Georgia\<close> is \<open>georgia\<close> again,
  and three entities named \<open>Georgia\<close> get the same slug three times.
\<close>

theorem base_slug_not_probed_counterexample:
  "exists_in_scope [ustr ''georgia''] (ustr ''georgia'')
   \<and> pre_save Base_slug sample_slugify (exists_in_scope [ustr ''georgia'']) (ustr ''Georgia'')
       = Some (ustr ''georgia'')
   \<and> allocate_all Base_slug sample_slugify []
         [ustr ''Georgia'', ustr ''Georgia'', ustr ''Georgia'']
       = Some [ustr ''georgia'', ustr ''georgia'', ustr ''georgia'']"
  by (simp add: pre_save_def Base_slug_def sample_slugify_def exists_in_scope_def ustr_def
      ascii_tolower_def is_ascii_upper_def)

text \<open>
  C7, amended. The field declared at \<open>Base.slug\<close>, and any field declared neither
  \<open>unique\<close> nor \<open>unique_with\<close>, gets the base slug whether or not it is in use. A field
  declared \<open>unique\<close> or \<open>unique_with\<close> gets the base slug when it is unused, and
  otherwise the first unused of \<open>base-2\<close>, \<open>base-3\<close>, ... in increasing order; the probe
  returns whenever finitely many slugs are in use; three entities named \<open>Georgia\<close> then
  get \<open>georgia\<close>, \<open>georgia-2\<close>, \<open>georgia-3\<close>.
\<close>

theorem slug_allocation:
  "pre_save Base_slug slugify rivals v = Some (slugify v)
   \<and> (\<not> unique field \<and> unique_with field = [] \<longrightarrow>
        pre_save field slugify rivals v = Some (slugify v))
   \<and> (unique field \<or> unique_with field \<noteq> [] \<longrightarrow>
        (\<not> rivals (slugify v) \<longrightarrow> pre_save field slugify rivals v = Some (slugify v))
      \<and> (\<forall>k. rivals (slugify v) \<and> 2 \<le> k
              \<and> (\<forall>j. 2 \<le> j \<and> j < k \<longrightarrow> rivals (suffixed (slugify v) j))
              \<and> \<not> rivals (suffixed (slugify v) k) \<longrightarrow>
            pre_save field slugify rivals v = Some (suffixed (slugify v) k))
      \<and> (finite {s. rivals s} \<longrightarrow>
            (\<exists>s. pre_save field slugify rivals v = Some s \<and> \<not> rivals s))
      \<and> (slugify (ustr ''Georgia'') = ustr ''georgia'' \<longrightarrow>
            allocate_all field slugify [] [ustr ''Georgia'', ustr ''Georgia'', ustr ''Georgia'']
              = Some [ustr ''georgia'', ustr ''georgia-2'', ustr ''georgia-3'']))"
proof -
  have a: "pre_save Base_slug slugify rivals v = Some (slugify v)"
    by (rule base_slug_no_probe)
  have b: "pre_save field slugify rivals v = Some (slugify v)"
    if "\<not> unique field \<and> unique_with field = []"
    using that by (simp add: pre_save_def)
  have c: "pre_save field slugify rivals v = generate_unique_slug rivals (slugify v)"
    if "unique field \<or> unique_with field \<noteq> []"
    using that by (simp add: pre_save_def)
  have d: "allocate_all field slugify [] [ustr ''Georgia'', ustr ''Georgia'', ustr ''Georgia'']
              = Some [ustr ''georgia'', ustr ''georgia-2'', ustr ''georgia-3'']"
    if "unique field \<or> unique_with field \<noteq> []" "slugify (ustr ''Georgia'') = ustr ''georgia''"
  proof -
    have "allocate_all field slugify [] [ustr ''Georgia'', ustr ''Georgia'', ustr ''Georgia'']
            = Some [ustr ''georgia'', suffixed (ustr ''georgia'') 2, suffixed (ustr ''georgia'') 3]"
      using that(2) that(1) by (rule three_same_names)
    then show ?thesis by (simp only: suffixed_georgia)
  qed
  show ?thesis
    using a b c d generate_unique_slug_unused [of rivals "slugify v"]
      generate_unique_slug_first_unused [of rivals "slugify v"]
      generate_unique_slug_returns [of rivals "slugify v"]
    by (intro conjI impI allI) auto
qed

theorem slug_allocation_witness:
  "unique unique_slug_field
   \<and> sample_slugify (ustr ''Georgia'') = ustr ''georgia''
   \<and> allocate_all unique_slug_field sample_slugify []
         [ustr ''Georgia'', ustr ''Georgia'', ustr ''Georgia'']
       = Some [ustr ''georgia'', ustr ''georgia-2'', ustr ''georgia-3'']
   \<and> exists_in_scope [ustr ''georgia''] (sample_slugify (ustr ''Georgia''))
   \<and> \<not> exists_in_scope [ustr ''georgia''] (suffixed (sample_slugify (ustr ''Georgia'')) 2)
   \<and> pre_save unique_slug_field sample_slugify (exists_in_scope [ustr ''georgia''])
         (ustr ''Georgia'') = Some (ustr ''georgia-2'')
   \<and> finite {s. exists_in_scope [ustr ''georgia''] s}
   \<and> (\<exists>s. pre_save unique_slug_field sample_slugify (exists_in_scope [ustr ''georgia''])
              (ustr ''Georgia'') = Some s \<and> \<not> exists_in_scope [ustr ''georgia''] s)
   \<and> \<not> unique Base_slug \<and> unique_with Base_slug = []
   \<and> pre_save Base_slug sample_slugify (exists_in_scope [ustr ''georgia''])
         (ustr ''Georgia'') = Some (ustr ''georgia'')"
proof -
  have u: "unique unique_slug_field" by (simp add: unique_slug_field_def)
  have nu: "\<not> unique Base_slug \<and> unique_with Base_slug = []" by (simp add: Base_slug_def)
  have g: "sample_slugify (ustr ''Georgia'') = ustr ''georgia''"
    by (simp add: sample_slugify_def ustr_def ascii_tolower_def is_ascii_upper_def)
  have s2: "suffixed (ustr ''georgia'') 2 = ustr ''georgia-2''"
    by (rule suffixed_georgia(1))
  have e: "exists_in_scope [ustr ''georgia''] (ustr ''georgia'')"
    "\<not> exists_in_scope [ustr ''georgia''] (ustr ''georgia-2'')"
    by (simp_all add: exists_in_scope_def ustr_def)
  have j: "\<forall>j::nat. 2 \<le> j \<and> j < 2 \<longrightarrow> exists_in_scope [ustr ''georgia''] (suffixed (ustr ''georgia'') j)"
    by auto
  have fin: "finite {s. exists_in_scope [ustr ''georgia''] s}"
    by (rule finite_exists_in_scope)
  note T = slug_allocation [of sample_slugify "exists_in_scope [ustr ''georgia'']"
      "ustr ''Georgia''" unique_slug_field]
  note U = T [THEN conjunct2, THEN conjunct2, THEN mp, OF disjI1 [OF u]]
  have P2: "pre_save unique_slug_field sample_slugify (exists_in_scope [ustr ''georgia''])
         (ustr ''Georgia'') = Some (ustr ''georgia-2'')"
    using U [THEN conjunct2, THEN conjunct1, THEN spec, of 2] e j
    by (simp only: g s2 simp_thms order_refl)
  have R: "\<exists>s. pre_save unique_slug_field sample_slugify (exists_in_scope [ustr ''georgia''])
              (ustr ''Georgia'') = Some s \<and> \<not> exists_in_scope [ustr ''georgia''] s"
    by (rule U [THEN conjunct2, THEN conjunct2, THEN conjunct1, THEN mp, OF fin])
  have G3: "allocate_all unique_slug_field sample_slugify []
         [ustr ''Georgia'', ustr ''Georgia'', ustr ''Georgia'']
       = Some [ustr ''georgia'', ustr ''georgia-2'', ustr ''georgia-3'']"
    by (rule U [THEN conjunct2, THEN conjunct2, THEN conjunct2, THEN mp, OF g])
  have B: "pre_save Base_slug sample_slugify (exists_in_scope [ustr ''georgia''])
         (ustr ''Georgia'') = Some (ustr ''georgia'')"
    using slug_allocation [of sample_slugify "exists_in_scope [ustr ''georgia'']"
        "ustr ''Georgia''" Base_slug, THEN conjunct2, THEN conjunct1, THEN mp, OF nu]
    by (simp only: g)
  show ?thesis
    by (intro conjI u g G3 P2 B fin R nu [THEN conjunct1] nu [THEN conjunct2])
      (simp_all only: g s2 e not_False_eq_True)
qed


section \<open>Properties of the writes\<close>







end
